theory Spec2Isabelle
  imports Main
begin

section \<open>Shared conventions\<close>

text \<open>
  A JavaScript string is a \<open>string\<close>: a \<open>char\<close> stands for a UTF-16 code unit below 256
  (the Latin-1 block), which covers the identifiers and paths this code handles.
  A JavaScript \<open>throw\<close> and a rejected promise are the \<open>Inl\<close> branch of a result
  \<open>error + 'a\<close>; \<open>undefined\<close> is \<open>None\<close>.
\<close>

datatype error = Error string

section \<open>Enumeration mappers: web/crux-ui/src/server/crux/mappers/node-mappers.ts\<close>

subsection \<open>Protocol enumerations\<close>

text \<open>
  The generated protocol enumerations are numeric at run time, so a variable of such a
  type can hold a number that is no declared member. Each input enumeration is a datatype
  of the members the mappers name, and one more constructor that carries the wire number
  of every other value (declared or not).
\<close>

datatype GrpcNodeType = DOCKER | K8S | GrpcNodeType_other int

datatype NodeConnectionStatus = CONNECTED | UNREACHABLE | NodeConnectionStatus_other int

datatype ProtoContainerOperation =
  START_CONTAINER | STOP_CONTAINER | RESTART_CONTAINER | UNRECOGNIZED

text \<open>The mappers name no member of the container state enumeration: it stays a number.\<close>

type_synonym ProtoContainerState = int

subsection \<open>JavaScript primitives the mappers use\<close>

text \<open>\<open>xs[i]\<close>: reading past the end of an array gives \<open>undefined\<close>, it does not throw.\<close>

definition js_index :: "'a list \<Rightarrow> nat \<Rightarrow> 'a option" where
  "js_index xs i = (if i < length xs then Some (xs ! i) else None)"

text \<open>
  \<open>String.prototype.toLowerCase\<close> on code units below 256: the upper-case letters are
  A to Z (65 to 90) and the accented capitals 192 to 222 without the multiplication sign
  (215); each moves up by 32. Every other code unit stays.
\<close>

definition isUpperCase :: "char \<Rightarrow> bool" where
  "isUpperCase c =
     (let n = (of_char c :: nat)
      in (65 \<le> n \<and> n \<le> 90) \<or> (192 \<le> n \<and> n \<le> 214) \<or> (216 \<le> n \<and> n \<le> 222))"

definition toLowerCaseChar :: "char \<Rightarrow> char" where
  "toLowerCaseChar c = (if isUpperCase c then char_of ((of_char c :: nat) + 32) else c)"

definition toLowerCase :: "string \<Rightarrow> string" where
  "toLowerCase s = map toLowerCaseChar s"

subsection \<open>The mappers\<close>

text \<open>
  \<open>containerStateToJSON\<close> is generated code outside this file: the mapper takes it as a
  parameter, a function that returns the canonical name of a state or throws.
  \<^verbatim>\<open>containerStateToJSON(state).toLowerCase() as ContainerState\<close>
\<close>

definition containerStateToDto ::
  "(ProtoContainerState \<Rightarrow> error + string) \<Rightarrow> ProtoContainerState \<Rightarrow> error + string" where
  "containerStateToDto containerStateToJSON state =
     (case containerStateToJSON state of
        Inl e \<Rightarrow> Inl e
      | Inr name \<Rightarrow> Inr (toLowerCase name))"

text \<open>
  \<open>NODE_TYPE_VALUES\<close> is a constant array of \<open>@app/models\<close>, outside this file: both
  node type mappers take it as a parameter.
  \<^verbatim>\<open>type === NODE_TYPE_VALUES[0] ? GrpcNodeType.DOCKER : GrpcNodeType.K8S\<close>
\<close>

definition nodeTypeUiToGrpc :: "string list \<Rightarrow> string \<Rightarrow> GrpcNodeType" where
  "nodeTypeUiToGrpc NODE_TYPE_VALUES type =
     (if Some type = js_index NODE_TYPE_VALUES 0 then DOCKER else K8S)"

text \<open>\<^verbatim>\<open>type === GrpcNodeType.DOCKER ? NODE_TYPE_VALUES[0] : NODE_TYPE_VALUES[1]\<close>\<close>

definition nodeTypeGrpcToUi :: "string list \<Rightarrow> GrpcNodeType \<Rightarrow> string option" where
  "nodeTypeGrpcToUi NODE_TYPE_VALUES type =
     (if type = DOCKER then js_index NODE_TYPE_VALUES 0 else js_index NODE_TYPE_VALUES 1)"

text \<open>The \<open>switch\<close> over the connection status, with its two cases and its default.\<close>

fun nodeStatusToDto :: "NodeConnectionStatus \<Rightarrow> string" where
  "nodeStatusToDto CONNECTED = ''running''"
| "nodeStatusToDto UNREACHABLE = ''unreachable''"
| "nodeStatusToDto _ = ''unreachable''"

text \<open>The \<open>switch\<close> over the operation string, with its three cases and its default.\<close>

definition containerOperationToProto :: "string \<Rightarrow> ProtoContainerOperation" where
  "containerOperationToProto it =
     (if it = ''start'' then START_CONTAINER
      else if it = ''stop'' then STOP_CONTAINER
      else if it = ''restart'' then RESTART_CONTAINER
      else UNRECOGNIZED)"

subsection \<open>The generated name lookup\<close>


section \<open>Deployment controller: web/crux/src/app/deploy/deploy.http.controller.ts\<close>

text \<open>
  \<open>DeploymentDto\<close> is declared in \<open>deploy.dto\<close>; the controller reads its \<open>id\<close> only, so
  the record has that field and carries the others in its extension. \<open>CreatedResponse\<close>
  is the pair of a location and a body that the two creating handlers return.
\<close>

record DeploymentDto =
  id_dto :: string

record 'b CreatedResponse =
  url :: string
  body :: 'b

text \<open>
  The injected \<open>DeployService\<close> is outside this file. Its two methods the creating handlers
  call are fields of a record: each takes its arguments and the state behind the service
  (the database), and returns the deployment or the error its promise rejects with,
  and the new state.
\<close>

record ('req, 'ident, 'db, 'd) DeployService =
  service_createDeployment :: "'req \<Rightarrow> 'ident \<Rightarrow> 'db \<Rightarrow> (error + 'd) \<times> 'db"
  service_copyDeployment :: "string \<Rightarrow> 'ident \<Rightarrow> 'db \<Rightarrow> (error + 'd) \<times> 'db"

definition ROUTE_DEPLOYMENTS :: string where
  "ROUTE_DEPLOYMENTS = ''deployments''"

text \<open>\<^verbatim>\<open>`/${ROUTE_DEPLOYMENTS}/${deploymentId}`\<close>\<close>

definition locationOf :: "string \<Rightarrow> string" where
  "locationOf deploymentId = ''/'' @ ROUTE_DEPLOYMENTS @ ''/'' @ deploymentId"

text \<open>
  \<open>createDeployment\<close> awaits the service and wraps the deployment; a rejection of the
  service passes through.
\<close>

definition createDeployment ::
  "('req, 'ident, 'db, 'a DeploymentDto_scheme) DeployService \<Rightarrow> 'req \<Rightarrow> 'ident \<Rightarrow> 'db
     \<Rightarrow> (error + 'a DeploymentDto_scheme CreatedResponse) \<times> 'db" where
  "createDeployment service request identity db =
     (case service_createDeployment service request identity db of
        (Inl e, db') \<Rightarrow> (Inl e, db')
      | (Inr deployment, db') \<Rightarrow>
          (Inr \<lparr>url = locationOf (id_dto deployment), body = deployment\<rparr>, db'))"

text \<open>
  \<open>copyDeployment\<close> takes the \<open>force\<close> query parameter first (\<open>None\<close> when the query has
  none) and names it \<open>_\<close>: the body never reads it.
\<close>

definition copyDeployment ::
  "('req, 'ident, 'db, 'a DeploymentDto_scheme) DeployService \<Rightarrow> bool option \<Rightarrow> string
     \<Rightarrow> 'ident \<Rightarrow> 'db \<Rightarrow> (error + 'a DeploymentDto_scheme CreatedResponse) \<times> 'db" where
  "copyDeployment service force deploymentId identity db =
     (case service_copyDeployment service deploymentId identity db of
        (Inl e, db') \<Rightarrow> (Inl e, db')
      | (Inr deployment, db') \<Rightarrow>
          (Inr \<lparr>url = locationOf (id_dto deployment), body = deployment\<rparr>, db'))"

section \<open>Checkbox element: web/crux-ui/src/elements/dyo-checkbox.tsx\<close>

text \<open>
  The props of the element. Every prop is optional. The two callbacks act on the state of
  the page (\<open>'st\<close>: the form values and whatever the parent keeps), and may throw.
\<close>

record ('e, 'st) DyoCheckboxProps =
  className :: "string option"
  name :: "string option"
  checked :: "bool option"
  setFieldValue :: "(string option \<Rightarrow> bool \<Rightarrow> bool \<Rightarrow> 'st \<Rightarrow> error + 'st) option"
  onCheckedChange :: "(bool \<Rightarrow> 'e \<Rightarrow> 'st \<Rightarrow> error + 'st) option"

text \<open>\<open>!checked\<close> on a value that is a boolean or \<open>undefined\<close>: \<open>undefined\<close> is falsy.\<close>

definition js_not :: "bool option \<Rightarrow> bool" where
  "js_not b = (case b of None \<Rightarrow> True | Some v \<Rightarrow> \<not> v)"

text \<open>
  \<^verbatim>\<open>setFieldValue?.call(this, name, isChecked, false)\<close>
  \<^verbatim>\<open>onCheckedChange?.call(this, isChecked, event)\<close>
  An absent callback is skipped; an exception of the first leaves the second uncalled.
\<close>

definition handleCheckedChange ::
  "('e, 'st) DyoCheckboxProps \<Rightarrow> bool \<Rightarrow> 'e \<Rightarrow> 'st \<Rightarrow> error + 'st" where
  "handleCheckedChange props isChecked event st =
     (case (case setFieldValue props of
              None \<Rightarrow> Inr st
            | Some f \<Rightarrow> f (name props) isChecked False st) of
        Inl e \<Rightarrow> Inl e
      | Inr st1 \<Rightarrow>
          (case onCheckedChange props of
             None \<Rightarrow> Inr st1
           | Some g \<Rightarrow> g isChecked event st1))"

text \<open>The two handlers of the rendered element: \<^verbatim>\<open>e => handleCheckedChange(!checked, e)\<close>.\<close>

definition onClick :: "('e, 'st) DyoCheckboxProps \<Rightarrow> 'e \<Rightarrow> 'st \<Rightarrow> error + 'st" where
  "onClick props e st = handleCheckedChange props (js_not (checked props)) e st"

definition onChange :: "('e, 'st) DyoCheckboxProps \<Rightarrow> 'e \<Rightarrow> 'st \<Rightarrow> error + 'st" where
  "onChange props e st = handleCheckedChange props (js_not (checked props)) e st"

text \<open>
  The calls a callback receives, for stating what the handlers call and in which order:
  a logging callback appends its call to the state.
\<close>

datatype 'e callback_call =
  SetFieldValueCall "string option" bool bool
| OnCheckedChangeCall bool 'e

section \<open>Properties of the mappers\<close>

subsection \<open>Lower-casing\<close>

lemma toLowerCaseChar_not_upper: "\<not> isUpperCase (toLowerCaseChar c)"
proof (cases "isUpperCase c")
  case False
  then show ?thesis by (simp add: toLowerCaseChar_def)
next
  case True
  let ?n = "of_char c :: nat"
  from True have rng:
    "(65 \<le> ?n \<and> ?n \<le> 90) \<or> (192 \<le> ?n \<and> ?n \<le> 214) \<or> (216 \<le> ?n \<and> ?n \<le> 222)"
    by (simp add: isUpperCase_def Let_def)
  then have small: "?n + 32 < 256" by arith
  have "of_char (char_of (?n + 32)) = ?n + 32"
    using small by (simp add: of_char_of)
  with rng True show ?thesis
    by (auto simp add: toLowerCaseChar_def isUpperCase_def Let_def)
qed

lemma toLowerCase_length: "length (toLowerCase s) = length s"
  by (simp add: toLowerCase_def)

lemma toLowerCase_no_upper: "list_all (\<lambda>c. \<not> isUpperCase c) (toLowerCase s)"
  by (simp add: toLowerCase_def list_all_iff toLowerCaseChar_not_upper)

subsection \<open>Totality\<close>



subsection \<open>Container operations\<close>

text \<open>
  C2: \<open>containerOperationToProto\<close> maps \<open>start\<close>, \<open>stop\<close> and \<open>restart\<close> to their protocol
  members and every other string, \<open>pause\<close> among them, to \<open>UNRECOGNIZED\<close>; it has no
  error branch.
\<close>

theorem containerOperationToProto_cases:
  "containerOperationToProto ''start'' = START_CONTAINER
   \<and> containerOperationToProto ''stop'' = STOP_CONTAINER
   \<and> containerOperationToProto ''restart'' = RESTART_CONTAINER
   \<and> containerOperationToProto ''pause'' = UNRECOGNIZED
   \<and> (containerOperationToProto it = UNRECOGNIZED) = (it \<notin> {''start'', ''stop'', ''restart''})"
  by (simp add: containerOperationToProto_def)

subsection \<open>Connection status\<close>

text \<open>
  C3: \<open>nodeStatusToDto\<close> returns \<open>running\<close> exactly for \<open>CONNECTED\<close> and \<open>unreachable\<close> for
  every other status, declared or not; these two strings are all it returns.
\<close>

theorem nodeStatusToDto_running_iff_connected:
  "(nodeStatusToDto status = ''running'') = (status = CONNECTED)
   \<and> (nodeStatusToDto status = ''unreachable'') = (status \<noteq> CONNECTED)
   \<and> range nodeStatusToDto = {''running'', ''unreachable''}"
proof (intro conjI)
  show "(nodeStatusToDto status = ''running'') = (status = CONNECTED)"
    by (cases status) simp_all
  show "(nodeStatusToDto status = ''unreachable'') = (status \<noteq> CONNECTED)"
    by (cases status) simp_all
  show "range nodeStatusToDto = {''running'', ''unreachable''}"
  proof
    show "range nodeStatusToDto \<subseteq> {''running'', ''unreachable''}"
    proof
      fix x assume "x \<in> range nodeStatusToDto"
      then obtain s where "x = nodeStatusToDto s" by blast
      then show "x \<in> {''running'', ''unreachable''}" by (cases s) simp_all
    qed
    have "nodeStatusToDto CONNECTED \<in> range nodeStatusToDto"
      and "nodeStatusToDto UNREACHABLE \<in> range nodeStatusToDto"
      by blast+
    then show "{''running'', ''unreachable''} \<subseteq> range nodeStatusToDto" by simp
  qed
qed

subsection \<open>Node types\<close>

text \<open>
  C4: both node type mappers classify against one sentinel. With the two entries of
  \<open>NODE_TYPE_VALUES\<close> in place, \<open>nodeTypeGrpcToUi\<close> returns the first entry for \<open>DOCKER\<close>
  and the second for every other protocol value, and \<open>nodeTypeUiToGrpc\<close> returns \<open>DOCKER\<close>
  for the first entry and \<open>K8S\<close> for every other string.
\<close>

theorem nodeType_mappers_binary:
  assumes "2 \<le> length NODE_TYPE_VALUES"
  shows "nodeTypeGrpcToUi NODE_TYPE_VALUES g
           = (if g = DOCKER then Some (NODE_TYPE_VALUES ! 0) else Some (NODE_TYPE_VALUES ! 1))
         \<and> nodeTypeUiToGrpc NODE_TYPE_VALUES t
           = (if t = NODE_TYPE_VALUES ! 0 then DOCKER else K8S)"
  using assms by (auto simp add: nodeTypeGrpcToUi_def nodeTypeUiToGrpc_def js_index_def)

theorem nodeType_mappers_binary_witness:
  "nodeTypeGrpcToUi [''docker'', ''k8s''] DOCKER = Some ''docker''
   \<and> nodeTypeGrpcToUi [''docker'', ''k8s''] K8S = Some ''k8s''
   \<and> nodeTypeGrpcToUi [''docker'', ''k8s''] (GrpcNodeType_other 0) = Some ''k8s''
   \<and> nodeTypeUiToGrpc [''docker'', ''k8s''] ''docker'' = DOCKER
   \<and> nodeTypeUiToGrpc [''docker'', ''k8s''] ''k8s'' = K8S
   \<and> nodeTypeUiToGrpc [''docker'', ''k8s''] ''nomad'' = K8S"
proof -
  have len: "2 \<le> length [''docker'', ''k8s'']" by simp
  show ?thesis
    using nodeType_mappers_binary [OF len, of DOCKER "''docker''"]
      nodeType_mappers_binary [OF len, of K8S "''k8s''"]
      nodeType_mappers_binary [OF len, of "GrpcNodeType_other 0" "''nomad''"]
    by simp
qed

text \<open>
  C5: the two node type mappers are inverse to each other on the two categories. For
  both entries of \<open>NODE_TYPE_VALUES\<close>, to the protocol and back gives the entry; for
  \<open>DOCKER\<close> and \<open>K8S\<close>, to the display type and back gives the member. The two entries
  are two categories: they differ.
\<close>

theorem nodeType_round_trip:
  assumes "2 \<le> length NODE_TYPE_VALUES"
    and "NODE_TYPE_VALUES ! 0 \<noteq> NODE_TYPE_VALUES ! 1"
  shows "nodeTypeGrpcToUi NODE_TYPE_VALUES (nodeTypeUiToGrpc NODE_TYPE_VALUES (NODE_TYPE_VALUES ! 0))
           = Some (NODE_TYPE_VALUES ! 0)
         \<and> nodeTypeGrpcToUi NODE_TYPE_VALUES (nodeTypeUiToGrpc NODE_TYPE_VALUES (NODE_TYPE_VALUES ! 1))
           = Some (NODE_TYPE_VALUES ! 1)
         \<and> map_option (nodeTypeUiToGrpc NODE_TYPE_VALUES) (nodeTypeGrpcToUi NODE_TYPE_VALUES DOCKER)
           = Some DOCKER
         \<and> map_option (nodeTypeUiToGrpc NODE_TYPE_VALUES) (nodeTypeGrpcToUi NODE_TYPE_VALUES K8S)
           = Some K8S"
  using assms by (auto simp add: nodeTypeGrpcToUi_def nodeTypeUiToGrpc_def js_index_def)

theorem nodeType_round_trip_witness:
  "nodeTypeGrpcToUi [''docker'', ''k8s''] (nodeTypeUiToGrpc [''docker'', ''k8s''] ''docker'')
     = Some ''docker''
   \<and> nodeTypeGrpcToUi [''docker'', ''k8s''] (nodeTypeUiToGrpc [''docker'', ''k8s''] ''k8s'')
     = Some ''k8s''
   \<and> map_option (nodeTypeUiToGrpc [''docker'', ''k8s'']) (nodeTypeGrpcToUi [''docker'', ''k8s''] DOCKER)
     = Some DOCKER
   \<and> map_option (nodeTypeUiToGrpc [''docker'', ''k8s'']) (nodeTypeGrpcToUi [''docker'', ''k8s''] K8S)
     = Some K8S"
proof -
  have len: "2 \<le> length [''docker'', ''k8s'']" by simp
  have ne: "[''docker'', ''k8s''] ! 0 \<noteq> [''docker'', ''k8s''] ! 1" by simp
  show ?thesis using nodeType_round_trip [OF len ne] by simp
qed

subsection \<open>Container state\<close>

text \<open>
  C6: for every container state that \<open>containerStateToJSON\<close> has a canonical name for,
  \<open>containerStateToDto\<close> returns that name in lower case: the same length, and no
  upper-case letter left.
\<close>

theorem containerStateToDto_lowercase_name:
  assumes "containerStateToJSON state = Inr canonical"
  shows "containerStateToDto containerStateToJSON state = Inr (toLowerCase canonical)
         \<and> length (toLowerCase canonical) = length canonical
         \<and> list_all (\<lambda>c. \<not> isUpperCase c) (toLowerCase canonical)"
  using assms
  by (simp add: containerStateToDto_def toLowerCase_length toLowerCase_no_upper)

theorem containerStateToDto_lowercase_name_witness:
  "containerStateToDto (\<lambda>s. if s = 1 then Inr ''RUNNING'' else Inr ''UNRECOGNIZED'') 1
     = Inr ''running''
   \<and> containerStateToDto (\<lambda>s. if s = 1 then Inr ''RUNNING'' else Inr ''UNRECOGNIZED'') 7
     = Inr ''unrecognized''"
proof -
  have la: "toLowerCase ''RUNNING'' = ''running''"
    by code_simp
  have lb: "toLowerCase ''UNRECOGNIZED'' = ''unrecognized''"
    by code_simp
  show ?thesis
    using containerStateToDto_lowercase_name
        [where containerStateToJSON = "\<lambda>s. if s = 1 then Inr ''RUNNING'' else Inr ''UNRECOGNIZED''"
          and state = 1 and canonical = "''RUNNING''"]
      containerStateToDto_lowercase_name
        [where containerStateToJSON = "\<lambda>s. if s = 1 then Inr ''RUNNING'' else Inr ''UNRECOGNIZED''"
          and state = 7 and canonical = "''UNRECOGNIZED''"]
    by (simp add: la lb)
qed

section \<open>Properties of the deployment controller\<close>

lemma locationOf_path: "locationOf deploymentId = ''/deployments/'' @ deploymentId"
  by (simp add: locationOf_def ROUTE_DEPLOYMENTS_def)

text \<open>
  C8: the result of \<open>copyDeployment\<close> does not depend on \<open>force\<close>. For every service and
  every state, two calls that differ in \<open>force\<close> only give the same response and the same
  new state; and against a service that logs its calls, the handler makes one call, with
  the deployment id and the identity, whatever \<open>force\<close> is.
\<close>

theorem copyDeployment_ignores_force:
  "copyDeployment service force1 deploymentId identity db
     = copyDeployment service force2 deploymentId identity db
   \<and> snd (copyDeployment
            \<lparr>service_createDeployment = create,
             service_copyDeployment = (\<lambda>d i calls. (outcome, calls @ [(d, i)]))\<rparr>
            force deploymentId identity [])
       = [(deploymentId, identity)]"
proof
  show "copyDeployment service force1 deploymentId identity db
          = copyDeployment service force2 deploymentId identity db"
    by (simp add: copyDeployment_def)
  show "snd (copyDeployment
               \<lparr>service_createDeployment = create,
                service_copyDeployment = (\<lambda>d i calls. (outcome, calls @ [(d, i)]))\<rparr>
               force deploymentId identity [])
          = [(deploymentId, identity)]"
    by (cases outcome) (simp_all add: copyDeployment_def)
qed

text \<open>
  C9: whenever the service returns a deployment, \<open>createDeployment\<close> and \<open>copyDeployment\<close>
  return that deployment as the body, and as the location the string \<open>/deployments/\<close>
  followed by the \<open>id\<close> of that body.
\<close>

theorem created_location_is_body_id:
  "(service_createDeployment service request identity db = (Inr deployment, db')
      \<longrightarrow> (\<exists>r. createDeployment service request identity db = (Inr r, db')
               \<and> body r = deployment
               \<and> url r = ''/deployments/'' @ id_dto (body r)))
   \<and> (service_copyDeployment service deploymentId identity db = (Inr deployment, db')
      \<longrightarrow> (\<exists>r. copyDeployment service force deploymentId identity db = (Inr r, db')
               \<and> body r = deployment
               \<and> url r = ''/deployments/'' @ id_dto (body r)))"
  by (simp add: createDeployment_def copyDeployment_def locationOf_path)

text \<open>
  A service that creates the deployment named by the request and copies a deployment
  under its id followed by \<open>-copy\<close>; its state counts the calls.
\<close>

theorem created_location_is_body_id_witness:
  "createDeployment
      \<lparr>service_createDeployment = (\<lambda>req ident db. (Inr \<lparr>id_dto = req\<rparr>, Suc db)),
       service_copyDeployment = (\<lambda>d ident db. (Inr \<lparr>id_dto = d @ ''-copy''\<rparr>, Suc db))\<rparr>
      ''d1'' ''alice'' (0::nat)
     = (Inr \<lparr>url = ''/deployments/d1'', body = \<lparr>id_dto = ''d1''\<rparr>\<rparr>, 1)
   \<and> copyDeployment
      \<lparr>service_createDeployment = (\<lambda>req ident db. (Inr \<lparr>id_dto = req\<rparr>, Suc db)),
       service_copyDeployment = (\<lambda>d ident db. (Inr \<lparr>id_dto = d @ ''-copy''\<rparr>, Suc db))\<rparr>
      (Some True) ''d1'' ''alice'' (0::nat)
     = (Inr \<lparr>url = ''/deployments/d1-copy'', body = \<lparr>id_dto = ''d1-copy''\<rparr>\<rparr>, 1)"
  using created_location_is_body_id
    [where service = "\<lparr>service_createDeployment = (\<lambda>req ident db. (Inr \<lparr>id_dto = req\<rparr>, Suc db)),
       service_copyDeployment = (\<lambda>d ident db. (Inr \<lparr>id_dto = d @ ''-copy''\<rparr>, Suc db))\<rparr>"
      and request = "''d1''" and identity = "''alice''" and db = "0::nat" and db' = "1::nat"
      and deployment = "\<lparr>id_dto = ''d1''\<rparr>" and deploymentId = "''d1''"
      and force = "Some True"]
    created_location_is_body_id
    [where service = "\<lparr>service_createDeployment = (\<lambda>req ident db. (Inr \<lparr>id_dto = req\<rparr>, Suc db)),
       service_copyDeployment = (\<lambda>d ident db. (Inr \<lparr>id_dto = d @ ''-copy''\<rparr>, Suc db))\<rparr>"
      and request = "''d1-copy''" and identity = "''alice''" and db = "0::nat" and db' = "1::nat"
      and deployment = "\<lparr>id_dto = ''d1-copy''\<rparr>" and deploymentId = "''d1''"
      and force = "Some True"]
  by auto

section \<open>Properties of the checkbox element\<close>

text \<open>
  C10: a click and a change both report the negation of the \<open>checked\<close> prop. With no
  callback nothing happens and nothing fails; with one callback that one is called;
  with both, \<open>setFieldValue\<close> is called with the name, the negation and \<open>false\<close>, and
  when it returns \<open>onCheckedChange\<close> is called with the negation and the event. Logging
  callbacks show the two calls in that order. The negation of an undefined \<open>checked\<close>
  is \<open>true\<close>.
\<close>

theorem DyoCheckbox_reports_negation:
  "onClick \<lparr>className = c, name = n, checked = ck,
            setFieldValue = None, onCheckedChange = None\<rparr> e st = Inr st
   \<and> onClick \<lparr>className = c, name = n, checked = ck,
            setFieldValue = Some f, onCheckedChange = None\<rparr> e st = f n (js_not ck) False st
   \<and> onClick \<lparr>className = c, name = n, checked = ck,
            setFieldValue = None, onCheckedChange = Some g\<rparr> e st = g (js_not ck) e st
   \<and> onClick \<lparr>className = c, name = n, checked = ck,
            setFieldValue = Some f, onCheckedChange = Some g\<rparr> e st
       = (case f n (js_not ck) False st of
            Inl err \<Rightarrow> Inl err
          | Inr st1 \<Rightarrow> g (js_not ck) e st1)
   \<and> onClick \<lparr>className = c, name = n, checked = ck,
            setFieldValue = Some (\<lambda>field v validate calls.
                                    Inr (calls @ [SetFieldValueCall field v validate])),
            onCheckedChange = Some (\<lambda>v ev calls. Inr (calls @ [OnCheckedChangeCall v ev]))\<rparr>
         e []
       = Inr [SetFieldValueCall n (js_not ck) False, OnCheckedChangeCall (js_not ck) e]
   \<and> onChange props e st = onClick props e st
   \<and> js_not None = True
   \<and> js_not (Some b) = (\<not> b)"
  by (simp add: onClick_def onChange_def handleCheckedChange_def js_not_def
      split: sum.splits)

end
